theory Spec2Isabelle
  imports Main
begin

section \<open>The Vagrant driver of molecule-plugins\<close>

text \<open>
  A shallow embedding of \<^verbatim>\<open>src/molecule_plugins/vagrant/driver.py\<close>, class
  \<^verbatim>\<open>Vagrant\<close>. Python values are a datatype, dictionaries are association lists in
  insertion order, every exception is a value of \<open>py_error\<close>, and an operation returns
  \<open>py_error + result\<close> with \<open>Inl\<close> for the raise.
\<close>

subsection \<open>Python values and exceptions\<close>

text \<open>
  The values a YAML document of the instance-config file is made of, with strings as
  the keys of mappings; floating-point numbers and timestamps are left out.
\<close>

datatype pyval =
    PNone
  | PBool bool
  | PInt int
  | PStr string
  | PList "pyval list"
  | PDict "(string \<times> pyval) list"

text \<open>
  The exceptions the driver can meet. \<open>SystemExit c m\<close> is the process exit with code
  \<open>c\<close> after the message \<open>m\<close> was logged. \<open>NotModelled\<close> marks the parts of
  \<^verbatim>\<open>str.format\<close> that the model of the built-in leaves out.
\<close>

datatype py_error =
    StopIteration
  | OSError
  | KeyError string
  | TypeError
  | ValueError
  | SystemExit int string
  | NotModelled

type_synonym 'a result = "py_error + 'a"

type_synonym dict = "(string \<times> pyval) list"

subsection \<open>Configuration, host environment, driver object\<close>

text \<open>
  What the driver reads from the host framework's configuration object and from its
  base class \<^verbatim>\<open>molecule.api.Driver\<close>:
  \<^verbatim>\<open>_config.scenario.ephemeral_directory\<close>, \<^verbatim>\<open>_config.driver.instance_config\<close>
  (also \<^verbatim>\<open>self.instance_config\<close>), \<^verbatim>\<open>_config.provisioner.inventory_file\<close>, the
  inherited property \<^verbatim>\<open>self.ssh_connection_options\<close> and the inherited method
  \<^verbatim>\<open>self._get_ssh_connection_options()\<close>. They are parameters of the model.
\<close>

record config =
  ephemeral_directory :: string
  instance_config :: string
  inventory_file :: string
  ssh_connection_options :: "string list"
  get_ssh_connection_options :: "string list"

text \<open>
  The host: the disk maps a path to the parsed YAML document stored there (\<open>None\<close>: no
  such file), and \<open>which\<close> is \<^verbatim>\<open>shutil.which\<close> on the current search path.
\<close>

record env =
  disk :: "string \<rightharpoonup> pyval"
  which :: "string \<Rightarrow> string option"

text \<open>The attributes of a \<^verbatim>\<open>Vagrant\<close> object: \<^verbatim>\<open>_config\<close> and \<^verbatim>\<open>_name\<close>.\<close>

record vagrant =
  priv_config :: config
  priv_name :: string

text \<open>\<^verbatim>\<open>__init__\<close>: the base class stores the configuration, then \<^verbatim>\<open>_name = "vagrant"\<close>.\<close>

definition init :: "config \<Rightarrow> vagrant" where
  "init cfg = \<lparr>priv_config = cfg, priv_name = ''vagrant''\<rparr>"

subsection \<open>Built-ins and library functions the driver calls\<close>

text \<open>\<^verbatim>\<open>sep.join(xs)\<close> on a list of strings.\<close>

fun join :: "string \<Rightarrow> string list \<Rightarrow> string" where
  "join sep [] = []"
| "join sep [x] = x"
| "join sep (x # y # ys) = x @ sep @ join sep (y # ys)"

text \<open>
  \<^verbatim>\<open>os.path.join(a, b)\<close> of \<^verbatim>\<open>posixpath\<close> for two components: an absolute \<open>b\<close>
  replaces \<open>a\<close>; otherwise a separator is added unless \<open>a\<close> is empty or ends with one.
\<close>

definition os_path_join :: "string \<Rightarrow> string \<Rightarrow> string" where
  "os_path_join a b =
     (if b \<noteq> [] \<and> hd b = CHR ''/'' then b
      else if a = [] \<or> last a = CHR ''/'' then a @ b
      else a @ ''/'' @ b)"

text \<open>Truth value of a Python object, as \<^verbatim>\<open>x or {}\<close> tests it.\<close>

fun truthy :: "pyval \<Rightarrow> bool" where
  "truthy PNone = False"
| "truthy (PBool b) = b"
| "truthy (PInt i) = (i \<noteq> 0)"
| "truthy (PStr s) = (s \<noteq> [])"
| "truthy (PList xs) = (xs \<noteq> [])"
| "truthy (PDict kvs) = (kvs \<noteq> [])"

text \<open>
  \<^verbatim>\<open>molecule.util.safe_load_file(path)\<close>: \<^verbatim>\<open>open\<close> raises \<^verbatim>\<open>FileNotFoundError\<close>, an
  \<^verbatim>\<open>OSError\<close>, when the file is absent; the parsed document is returned, and an empty
  or false document is replaced by the empty dictionary (\<^verbatim>\<open>yaml.safe_load(s) or {}\<close>).
\<close>

definition safe_load_file :: "env \<Rightarrow> string \<Rightarrow> pyval result" where
  "safe_load_file e path =
     (case disk e path of
        None \<Rightarrow> Inl OSError
      | Some doc \<Rightarrow> Inr (if truthy doc then doc else PDict []))"

text \<open>
  \<^verbatim>\<open>iter(x)\<close>, run to the end: a list gives its elements, a dictionary its keys, a
  string its characters; nothing else is iterable.
\<close>

fun py_iter :: "pyval \<Rightarrow> pyval list result" where
  "py_iter (PList xs) = Inr xs"
| "py_iter (PDict kvs) = Inr (map (\<lambda>kv. PStr (fst kv)) kvs)"
| "py_iter (PStr s) = Inr (map (\<lambda>c. PStr [c]) s)"
| "py_iter PNone = Inl TypeError"
| "py_iter (PBool b) = Inl TypeError"
| "py_iter (PInt i) = Inl TypeError"

text \<open>
  \<^verbatim>\<open>x[key]\<close> with a string key: a dictionary looks the key up and raises
  \<^verbatim>\<open>KeyError\<close> when it is missing; every other value raises \<^verbatim>\<open>TypeError\<close>.
\<close>

fun getitem :: "pyval \<Rightarrow> string \<Rightarrow> pyval result" where
  "getitem (PDict kvs) key =
     (case map_of kvs key of None \<Rightarrow> Inl (KeyError key) | Some v \<Rightarrow> Inr v)"
| "getitem PNone key = Inl TypeError"
| "getitem (PBool b) key = Inl TypeError"
| "getitem (PInt i) key = Inl TypeError"
| "getitem (PStr s) key = Inl TypeError"
| "getitem (PList xs) key = Inl TypeError"

subsection \<open>The instance-config lookup\<close>

text \<open>
  \<^verbatim>\<open>next(item for item in xs if item["instance"] == instance_name)\<close>: the generator
  tests the items in order, an exception of the test leaves the generator, and
  \<^verbatim>\<open>next\<close> raises \<^verbatim>\<open>StopIteration\<close> when the items are used up. The name is a string,
  so only an equal string compares equal to it.
\<close>

fun next_match :: "pyval list \<Rightarrow> string \<Rightarrow> pyval result" where
  "next_match [] instance_name = Inl StopIteration"
| "next_match (item # items) instance_name =
     (case getitem item ''instance'' of
        Inl e \<Rightarrow> Inl e
      | Inr v \<Rightarrow> if v = PStr instance_name then Inr item
                else next_match items instance_name)"

definition get_instance_config :: "vagrant \<Rightarrow> env \<Rightarrow> string \<Rightarrow> pyval result" where
  "get_instance_config self e instance_name =
     (case safe_load_file e (instance_config (priv_config self)) of
        Inl err \<Rightarrow> Inl err
      | Inr instance_config_dict \<Rightarrow>
          (case py_iter instance_config_dict of
             Inl err \<Rightarrow> Inl err
           | Inr items \<Rightarrow> next_match items instance_name))"

subsection \<open>Operations of the driver\<close>

definition name :: "vagrant \<Rightarrow> string" where
  "name self = priv_name self"

definition set_name :: "vagrant \<Rightarrow> string \<Rightarrow> vagrant" where
  "set_name self v = self\<lparr>priv_name := v\<rparr>"

definition testinfra_options :: "vagrant \<Rightarrow> dict" where
  "testinfra_options self =
     [(''connection'', PStr ''ansible''),
      (''ansible-inventory'', PStr (inventory_file (priv_config self)))]"

definition login_cmd_template :: "vagrant \<Rightarrow> string" where
  "login_cmd_template self =
     (let connection_options = join '' '' (ssh_connection_options (priv_config self))
      in ''ssh {address} '' @ ''-l {user} '' @ ''-p {port} '' @ ''-i {identity_file} ''
         @ connection_options)"

definition vagrantfile :: "vagrant \<Rightarrow> string" where
  "vagrantfile self =
     os_path_join (ephemeral_directory (priv_config self)) ''Vagrantfile''"

definition default_safe_files :: "vagrant \<Rightarrow> string list" where
  "default_safe_files self =
     [vagrantfile self,
      instance_config (priv_config self),
      os_path_join (ephemeral_directory (priv_config self)) ''.vagrant'',
      os_path_join (ephemeral_directory (priv_config self)) ''vagrant-*.out'',
      os_path_join (ephemeral_directory (priv_config self)) ''vagrant-*.err'']"

definition default_ssh_connection_options :: "vagrant \<Rightarrow> string list" where
  "default_ssh_connection_options self = get_ssh_connection_options (priv_config self)"

text \<open>
  \<^verbatim>\<open>ansible_connection_options\<close>: the four subscripts are evaluated in the order of
  the dictionary display, so the first missing key is the one reported; the handlers
  turn \<^verbatim>\<open>StopIteration\<close> and \<^verbatim>\<open>OSError\<close> into the empty dictionary and let every
  other exception through.
\<close>

definition connection_dict :: "vagrant \<Rightarrow> pyval \<Rightarrow> dict result" where
  "connection_dict self d =
     (case getitem d ''user'' of Inl e \<Rightarrow> Inl e | Inr u \<Rightarrow>
     (case getitem d ''address'' of Inl e \<Rightarrow> Inl e | Inr a \<Rightarrow>
     (case getitem d ''port'' of Inl e \<Rightarrow> Inl e | Inr p \<Rightarrow>
     (case getitem d ''identity_file'' of Inl e \<Rightarrow> Inl e | Inr k \<Rightarrow>
        Inr [(''ansible_user'', u),
             (''ansible_host'', a),
             (''ansible_port'', p),
             (''ansible_private_key_file'', k),
             (''connection'', PStr ''ssh''),
             (''ansible_ssh_common_args'',
                PStr (join '' '' (ssh_connection_options (priv_config self))))]))))"

definition ansible_connection_options :: "vagrant \<Rightarrow> env \<Rightarrow> string \<Rightarrow> dict result" where
  "ansible_connection_options self e instance_name =
     (case (case get_instance_config self e instance_name of
              Inl err \<Rightarrow> Inl err
            | Inr d \<Rightarrow> connection_dict self d) of
        Inl StopIteration \<Rightarrow> Inr []
      | Inl OSError \<Rightarrow> Inr []
      | Inl err \<Rightarrow> Inl err
      | Inr r \<Rightarrow> Inr r)"

text \<open>
  \<^verbatim>\<open>result[k] = v\<close> on a dictionary: an existing key keeps its place, a new key goes
  to the end.
\<close>

fun dict_set :: "dict \<Rightarrow> string \<Rightarrow> pyval \<Rightarrow> dict" where
  "dict_set [] k v = [(k, v)]"
| "dict_set (kv # kvs) k v =
     (if fst kv = k then (k, v) # kvs else kv # dict_set kvs k v)"

text \<open>
  \<^verbatim>\<open>molecule.util.merge_dicts(a, b)\<close>: a copy of \<open>a\<close> into which the items of \<open>b\<close>
  are stored in order; where both sides hold a dictionary under a key of \<open>a\<close>, the two
  are merged recursively. \<open>merge_into a result b\<close> is the loop, \<open>result\<close> the copy
  built so far.
\<close>

function merge_into :: "dict \<Rightarrow> dict \<Rightarrow> dict \<Rightarrow> dict" where
  "merge_into a result [] = result"
| "merge_into a result ((k, v) # b) =
     merge_into a
       (dict_set result k
          (case (map_of a k, v) of
             (Some (PDict ak), PDict vd) \<Rightarrow> PDict (merge_into ak ak vd)
           | _ \<Rightarrow> v))
       b"
  by pat_completeness auto
termination
  by (relation "measure (\<lambda>(a, r, b). size (PDict b))") auto

definition merge_dicts :: "dict \<Rightarrow> dict \<Rightarrow> dict" where
  "merge_dicts a b = merge_into a a b"

text \<open>
  \<^verbatim>\<open>login_options\<close>: no handler, so every exception of the lookup reaches the caller.
  The lookup only returns an item whose subscript succeeded, a dictionary; the other
  branch of the case is there for totality.
\<close>

definition login_options :: "vagrant \<Rightarrow> env \<Rightarrow> string \<Rightarrow> dict result" where
  "login_options self e instance_name =
     (let d = [(''instance'', PStr instance_name)]
      in case get_instance_config self e instance_name of
           Inl err \<Rightarrow> Inl err
         | Inr (PDict r) \<Rightarrow> Inr (merge_dicts d r)
         | Inr _ \<Rightarrow> Inl TypeError)"

text \<open>
  \<^verbatim>\<open>molecule.util.sysexit_with_message(msg)\<close> logs the message and leaves the process
  with code 1.
\<close>

definition sysexit_with_message :: "string \<Rightarrow> 'a result" where
  "sysexit_with_message msg = Inl (SystemExit 1 msg)"

text \<open>
  \<^verbatim>\<open>sanity_checks\<close>: \<^verbatim>\<open>not which("vagrant")\<close> holds for \<^verbatim>\<open>None\<close> and for the empty
  string. The second check of the source is a comment.
\<close>

definition sanity_checks :: "vagrant \<Rightarrow> env \<Rightarrow> unit result" where
  "sanity_checks self e =
     (if (case which e ''vagrant'' of None \<Rightarrow> True | Some p \<Rightarrow> p = [])
      then sysexit_with_message ''vagrant executable was not found!''
      else Inr ())"

subsection \<open>Formatting the login command\<close>

text \<open>\<^verbatim>\<open>str(n)\<close> for an integer: decimal digits, a minus sign when negative.\<close>

fun str_nat :: "nat \<Rightarrow> string" where
  "str_nat n =
     (if n < 10 then [char_of (48 + n)]
      else str_nat (n div 10) @ [char_of (48 + n mod 10)])"

declare str_nat.simps [simp del]

definition str_int :: "int \<Rightarrow> string" where
  "str_int i = (if i < 0 then CHR ''-'' # str_nat (nat (- i)) else str_nat (nat i))"

text \<open>
  \<^verbatim>\<open>format(v, "")\<close> as a replacement field without a format specification applies it.
  The \<^verbatim>\<open>repr\<close> of the containers is not modelled.
\<close>

fun py_str :: "pyval \<Rightarrow> string result" where
  "py_str (PStr s) = Inr s"
| "py_str (PInt i) = Inr (str_int i)"
| "py_str (PBool b) = Inr (if b then ''True'' else ''False'')"
| "py_str PNone = Inr ''None''"
| "py_str (PList xs) = Inl NotModelled"
| "py_str (PDict kvs) = Inl NotModelled"

definition prepend :: "string \<Rightarrow> string result \<Rightarrow> string result" where
  "prepend s r = (case r of Inl e \<Rightarrow> Inl e | Inr t \<Rightarrow> Inr (s @ t))"

text \<open>
  A replacement field \<^verbatim>\<open>{name}\<close> of \<^verbatim>\<open>template.format(**kwargs)\<close>: a plain keyword
  name is looked up in the keyword arguments (\<^verbatim>\<open>KeyError\<close> when absent). Positional
  fields, attribute and index access, conversions and format specifications are not
  modelled; a brace inside the field is an error of Python's parser.
\<close>

definition format_field :: "dict \<Rightarrow> string \<Rightarrow> string result" where
  "format_field kwargs field =
     (if CHR ''{'' \<in> set field then Inl ValueError
      else if field = [] \<or> hd field \<in> set ''0123456789''
              \<or> (\<exists>c \<in> set field. c \<in> set ''.[!:'') then Inl NotModelled
      else case map_of kwargs field of
             None \<Rightarrow> Inl (KeyError field)
           | Some v \<Rightarrow> py_str v)"

text \<open>
  \<^verbatim>\<open>template.format(**kwargs)\<close>, left to right. The second argument is \<open>None\<close> in
  literal text and \<open>Some acc\<close> inside a replacement field, \<open>acc\<close> being the field read
  so far, reversed. \<^verbatim>\<open>{{\<close> and \<^verbatim>\<open>}}\<close> are the escaped braces; a single closing brace
  and an unclosed field raise \<^verbatim>\<open>ValueError\<close>.
\<close>

fun format_from :: "dict \<Rightarrow> string option \<Rightarrow> string \<Rightarrow> string result" where
  "format_from kwargs None [] = Inr []"
| "format_from kwargs None (c # cs) =
     (if c = CHR ''{'' then
        (case cs of
           [] \<Rightarrow> Inl ValueError
         | c' # cs' \<Rightarrow>
             if c' = CHR ''{'' then prepend ''{'' (format_from kwargs None cs')
             else format_from kwargs (Some []) cs)
      else if c = CHR ''}'' then
        (case cs of
           [] \<Rightarrow> Inl ValueError
         | c' # cs' \<Rightarrow>
             if c' = CHR ''}'' then prepend ''}'' (format_from kwargs None cs')
             else Inl ValueError)
      else prepend [c] (format_from kwargs None cs))"
| "format_from kwargs (Some acc) [] = Inl ValueError"
| "format_from kwargs (Some acc) (c # cs) =
     (if c = CHR ''}'' then
        (case format_field kwargs (rev acc) of
           Inl e \<Rightarrow> Inl e
         | Inr s \<Rightarrow> prepend s (format_from kwargs None cs))
      else format_from kwargs (Some (c # acc)) cs)"

definition py_format :: "string \<Rightarrow> dict \<Rightarrow> string result" where
  "py_format template kwargs = format_from kwargs None template"

subsection \<open>The driver as a state machine\<close>

text \<open>
  Every operation of lines 128 to 206 as a call on the object: \<open>call op self e\<close> gives
  the returned value (or the exception) and the object after the call. The setter of
  \<^verbatim>\<open>name\<close> is the only assignment to an attribute in the class.
\<close>

datatype op =
    Name
  | SetName string
  | TestinfraOptions
  | LoginCmdTemplate
  | DefaultSafeFiles
  | DefaultSshConnectionOptions
  | LoginOptions string
  | AnsibleConnectionOptions string
  | Vagrantfile
  | GetInstanceConfig string

definition str_list :: "string list \<Rightarrow> pyval" where
  "str_list xs = PList (map PStr xs)"

fun call :: "op \<Rightarrow> vagrant \<Rightarrow> env \<Rightarrow> pyval result \<times> vagrant" where
  "call Name self e = (Inr (PStr (name self)), self)"
| "call (SetName v) self e = (Inr PNone, set_name self v)"
| "call TestinfraOptions self e = (Inr (PDict (testinfra_options self)), self)"
| "call LoginCmdTemplate self e = (Inr (PStr (login_cmd_template self)), self)"
| "call DefaultSafeFiles self e = (Inr (str_list (default_safe_files self)), self)"
| "call DefaultSshConnectionOptions self e =
     (Inr (str_list (default_ssh_connection_options self)), self)"
| "call (LoginOptions n) self e = (map_sum id PDict (login_options self e n), self)"
| "call (AnsibleConnectionOptions n) self e =
     (map_sum id PDict (ansible_connection_options self e n), self)"
| "call Vagrantfile self e = (Inr (PStr (vagrantfile self)), self)"
| "call (GetInstanceConfig n) self e = (get_instance_config self e n, self)"

text \<open>A run of calls on one object: the results in order, and the object at the end.\<close>

fun calls :: "op list \<Rightarrow> vagrant \<Rightarrow> env \<Rightarrow> pyval result list \<times> vagrant" where
  "calls [] self e = ([], self)"
| "calls (c # cs) self e =
     (let (r, self') = call c self e; (rs, self'') = calls cs self' e
      in (r # rs, self''))"

subsection \<open>Records of the instance-config file\<close>

text \<open>
  The file is a sequence of records, each a mapping with the fields \<^verbatim>\<open>instance\<close>,
  \<^verbatim>\<open>user\<close>, \<^verbatim>\<open>address\<close>, \<^verbatim>\<open>port\<close> and \<^verbatim>\<open>identity_file\<close>. A record matches a name
  when its \<^verbatim>\<open>instance\<close> field is that name; the lookup passes over a record when the
  field is there and is something else.
\<close>

definition matches :: "string \<Rightarrow> pyval \<Rightarrow> bool" where
  "matches instance_name item = (getitem item ''instance'' = Inr (PStr instance_name))"

definition passed_over :: "string \<Rightarrow> pyval \<Rightarrow> bool" where
  "passed_over instance_name item =
     (case getitem item ''instance'' of
        Inl e \<Rightarrow> False
      | Inr v \<Rightarrow> v \<noteq> PStr instance_name)"

definition has_instance :: "pyval \<Rightarrow> bool" where
  "has_instance item =
     (case getitem item ''instance'' of Inl e \<Rightarrow> False | Inr v \<Rightarrow> True)"

subsection \<open>Sample data\<close>

definition sample_config :: config where
  "sample_config =
     \<lparr>ephemeral_directory = ''/tmp/eph'',
      instance_config = ''/tmp/eph/instance_config.yml'',
      inventory_file = ''/tmp/eph/inventory/ansible_inventory.yml'',
      ssh_connection_options = [''-o Foo=bar'', ''-o LogLevel=ERROR''],
      get_ssh_connection_options = [''-o LogLevel=ERROR'']\<rparr>"

definition sample_record :: dict where
  "sample_record =
     [(''instance'', PStr ''i1''), (''user'', PStr ''u''), (''address'', PStr ''1.2.3.4''),
      (''port'', PInt 22), (''identity_file'', PStr ''/key'')]"

definition second_record :: dict where
  "second_record =
     [(''instance'', PStr ''i1''), (''user'', PStr ''other''), (''address'', PStr ''5.6.7.8''),
      (''port'', PInt 2222), (''identity_file'', PStr ''/other'')]"

definition portless_record :: dict where
  "portless_record =
     [(''instance'', PStr ''i1''), (''user'', PStr ''u''), (''address'', PStr ''1.2.3.4''),
      (''identity_file'', PStr ''/key'')]"

definition env_with :: "pyval list \<Rightarrow> env" where
  "env_with records =
     \<lparr>disk = [''/tmp/eph/instance_config.yml'' \<mapsto> PList records],
      which = (\<lambda>x. None)\<rparr>"

definition env_without_file :: env where
  "env_without_file = \<lparr>disk = Map.empty, which = (\<lambda>x. None)\<rparr>"

definition env_with_vagrant :: env where
  "env_with_vagrant =
     \<lparr>disk = Map.empty, which = [''vagrant'' \<mapsto> ''/usr/bin/vagrant'']\<rparr>"

section \<open>Properties\<close>

subsection \<open>The lookup\<close>

lemma next_match_first:
  "list_all (passed_over n) pre \<Longrightarrow> matches n r \<Longrightarrow> next_match (pre @ r # post) n = Inr r"
  by (induction pre) (auto simp: passed_over_def matches_def split: sum.splits)

lemma next_match_none:
  "list_all (passed_over n) items \<Longrightarrow> next_match items n = Inl StopIteration"
  by (induction items) (auto simp: passed_over_def split: sum.splits)

lemma passed_over_iff: "passed_over n item \<longleftrightarrow> has_instance item \<and> \<not> matches n item"
  by (auto simp: passed_over_def has_instance_def matches_def split: sum.splits)

text \<open>
  In a file whose entries all have the \<^verbatim>\<open>instance\<close> field, a record of the name
  splits the file at its first occurrence, and without such a record every entry is
  passed over.
\<close>

lemma first_match_exists:
  assumes "list_all has_instance items" and "\<exists>r \<in> set items. matches n r"
  shows "\<exists>pre r post. items = pre @ r # post \<and> list_all (passed_over n) pre \<and> matches n r"
proof -
  from assms(2) obtain pre r post
    where split: "items = pre @ r # post" and hit: "matches n r"
      and miss: "\<forall>x \<in> set pre. \<not> matches n x"
    using split_list_first_prop [of items "matches n"] by blast
  from assms(1) split have "\<forall>x \<in> set pre. has_instance x"
    by (simp add: list_all_iff)
  with miss have "list_all (passed_over n) pre"
    by (simp add: list_all_iff passed_over_iff)
  with split hit show ?thesis
    by blast
qed

lemma no_match_passed_over:
  "list_all has_instance items \<Longrightarrow> \<forall>r \<in> set items. \<not> matches n r \<Longrightarrow>
   list_all (passed_over n) items"
  by (simp add: list_all_iff passed_over_iff)

text \<open>What the lookup returns is a dictionary: the subscript succeeded on it.\<close>

lemma next_match_dict: "next_match items n = Inr r \<Longrightarrow> \<exists>f. r = PDict f"
proof (induction items)
  case Nil
  then show ?case by simp
next
  case (Cons item items)
  then show ?case
    by (cases item) (auto split: option.splits if_splits)
qed

lemma get_instance_config_dict: "get_instance_config self e n = Inr r \<Longrightarrow> \<exists>f. r = PDict f"
  by (auto simp: get_instance_config_def split: sum.splits dest: next_match_dict)

lemma get_instance_config_absent:
  "disk e (instance_config (priv_config self)) = None \<Longrightarrow>
   get_instance_config self e n = Inl OSError"
  by (simp add: get_instance_config_def safe_load_file_def)

lemma get_instance_config_list:
  "disk e (instance_config (priv_config self)) = Some (PList items) \<Longrightarrow>
   get_instance_config self e n = next_match items n"
  by (cases items) (simp_all add: get_instance_config_def safe_load_file_def)

text \<open>An empty file, or any false document, holds no record: the lookup finds none.\<close>

lemma get_instance_config_falsy:
  "disk e (instance_config (priv_config self)) = Some doc \<Longrightarrow> \<not> truthy doc \<Longrightarrow>
   get_instance_config self e n = Inl StopIteration"
  by (simp add: get_instance_config_def safe_load_file_def)

text \<open>
  An entry without an \<^verbatim>\<open>instance\<close> field ahead of the match is outside the data model:
  the test of the generator raises \<^verbatim>\<open>KeyError\<close> there, which no handler catches.
\<close>

lemma next_match_malformed:
  "map_of f ''instance'' = None \<Longrightarrow>
   next_match (PDict f # items) n = Inl (KeyError ''instance'')"
  by simp

lemma get_instance_config_found:
  assumes "disk e (instance_config (priv_config self)) = Some (PList (pre @ r # post))"
    and "list_all (passed_over n) pre"
    and "matches n r"
  shows "get_instance_config self e n = Inr r"
  using assms by (simp add: get_instance_config_list next_match_first)

lemma sample_file:
  "disk (env_with records) (instance_config (priv_config (init sample_config)))
     = Some (PList records)"
  by (simp add: env_with_def sample_config_def init_def)

lemma sample_no_file:
  "disk env_without_file (instance_config (priv_config (init sample_config))) = None"
  by (simp add: env_without_file_def)

subsection \<open>Connection options for Ansible\<close>

lemma connection_dict_fields:
  "map_of r ''user'' = Some u \<Longrightarrow> map_of r ''address'' = Some a \<Longrightarrow>
   map_of r ''port'' = Some p \<Longrightarrow> map_of r ''identity_file'' = Some k \<Longrightarrow>
   connection_dict self (PDict r) =
     Inr [(''ansible_user'', u), (''ansible_host'', a), (''ansible_port'', p),
          (''ansible_private_key_file'', k), (''connection'', PStr ''ssh''),
          (''ansible_ssh_common_args'',
             PStr (join '' '' (ssh_connection_options (priv_config self))))]"
  by (simp add: connection_dict_def)

lemma ansible_connection_options_of_lookup_error:
  "get_instance_config self e n = Inl err \<Longrightarrow> err = StopIteration \<or> err = OSError \<Longrightarrow>
   ansible_connection_options self e n = Inr []"
  by (auto simp: ansible_connection_options_def)

text \<open>
  Claim C1. When the instance-config file holds a record for the instance name (the
  first one whose \<^verbatim>\<open>instance\<close> field is the name, every entry before it being a record
  for another name), \<^verbatim>\<open>ansible_connection_options\<close> returns exactly the dictionary
  with \<^verbatim>\<open>ansible_user\<close>, \<^verbatim>\<open>ansible_host\<close>, \<^verbatim>\<open>ansible_port\<close> and
  \<^verbatim>\<open>ansible_private_key_file\<close> copied from the record's \<^verbatim>\<open>user\<close>, \<^verbatim>\<open>address\<close>,
  \<^verbatim>\<open>port\<close> and \<^verbatim>\<open>identity_file\<close>, the constant \<^verbatim>\<open>connection: ssh\<close>, and
  \<^verbatim>\<open>ansible_ssh_common_args\<close> holding the SSH options joined by spaces; no other key.
\<close>

theorem ansible_connection_options_found:
  assumes "disk e (instance_config (priv_config self)) = Some (PList (pre @ PDict r # post))"
    and "list_all (passed_over n) pre"
    and "map_of r ''instance'' = Some (PStr n)"
    and "map_of r ''user'' = Some u"
    and "map_of r ''address'' = Some a"
    and "map_of r ''port'' = Some p"
    and "map_of r ''identity_file'' = Some k"
  shows "ansible_connection_options self e n =
     Inr [(''ansible_user'', u), (''ansible_host'', a), (''ansible_port'', p),
          (''ansible_private_key_file'', k), (''connection'', PStr ''ssh''),
          (''ansible_ssh_common_args'',
             PStr (join '' '' (ssh_connection_options (priv_config self))))]"
proof -
  have "matches n (PDict r)"
    using assms(3) by (simp add: matches_def)
  with assms(1,2) have "get_instance_config self e n = Inr (PDict r)"
    by (rule get_instance_config_found)
  then show ?thesis
    using assms(4-7) by (simp add: ansible_connection_options_def connection_dict_fields)
qed

text \<open>
  The scenario of the specification: the file holds the one record of \<^verbatim>\<open>i1\<close>, and the
  call for \<^verbatim>\<open>i1\<close> returns the six entries.
\<close>

theorem ansible_connection_options_found_witness:
  "ansible_connection_options (init sample_config) (env_with [PDict sample_record]) ''i1'' =
     Inr [(''ansible_user'', PStr ''u''), (''ansible_host'', PStr ''1.2.3.4''),
          (''ansible_port'', PInt 22), (''ansible_private_key_file'', PStr ''/key''),
          (''connection'', PStr ''ssh''),
          (''ansible_ssh_common_args'', PStr ''-o Foo=bar -o LogLevel=ERROR'')]"
proof -
  have on_disk: "disk (env_with [PDict sample_record])
                (instance_config (priv_config (init sample_config)))
              = Some (PList ([] @ PDict sample_record # []))"
    by (simp add: sample_file)
  have before: "list_all (passed_over ''i1'') []"
    by simp
  have fields: "map_of sample_record ''instance'' = Some (PStr ''i1'')"
    "map_of sample_record ''user'' = Some (PStr ''u'')"
    "map_of sample_record ''address'' = Some (PStr ''1.2.3.4'')"
    "map_of sample_record ''port'' = Some (PInt 22)"
    "map_of sample_record ''identity_file'' = Some (PStr ''/key'')"
    by (simp_all add: sample_record_def)
  show ?thesis
    using ansible_connection_options_found [OF on_disk before fields]
    by (simp add: sample_config_def init_def)
qed

text \<open>
  Claim C2. When the instance-config file is not on disk, or it holds records and none
  of them is for the instance name, \<^verbatim>\<open>ansible_connection_options\<close> returns the empty
  dictionary; it does not raise.
\<close>

theorem ansible_connection_options_not_ready:
  assumes "disk e (instance_config (priv_config self)) = None
           \<or> (\<exists>items. disk e (instance_config (priv_config self)) = Some (PList items)
                 \<and> list_all (passed_over n) items)"
  shows "ansible_connection_options self e n = Inr []"
  using assms
proof
  assume "disk e (instance_config (priv_config self)) = None"
  then have "get_instance_config self e n = Inl OSError"
    by (rule get_instance_config_absent)
  then show ?thesis
    by (simp add: ansible_connection_options_of_lookup_error)
next
  assume "\<exists>items. disk e (instance_config (priv_config self)) = Some (PList items)
                 \<and> list_all (passed_over n) items"
  then have "get_instance_config self e n = Inl StopIteration"
    by (auto simp: get_instance_config_list next_match_none)
  then show ?thesis
    by (simp add: ansible_connection_options_of_lookup_error)
qed

theorem ansible_connection_options_not_ready_witness:
  "disk env_without_file (instance_config (priv_config (init sample_config))) = None
   \<and> ansible_connection_options (init sample_config) env_without_file ''i1'' = Inr []
   \<and> list_all (passed_over ''i2'') [PDict sample_record]
   \<and> ansible_connection_options (init sample_config) (env_with [PDict sample_record]) ''i2''
       = Inr []"
proof -
  note absent = sample_no_file
  have other: "list_all (passed_over ''i2'') [PDict sample_record]"
    by (simp add: passed_over_def sample_record_def)
  have unmatched:
    "\<exists>items. disk (env_with [PDict sample_record])
               (instance_config (priv_config (init sample_config))) = Some (PList items)
       \<and> list_all (passed_over ''i2'') items"
    using other by (simp add: sample_file)
  show ?thesis
    using absent other
      ansible_connection_options_not_ready [OF disjI1, OF absent, of "''i1''"]
      ansible_connection_options_not_ready [OF disjI2, OF unmatched]
    by simp
qed

text \<open>
  Claim C10. When the record found for the instance name lacks one of \<^verbatim>\<open>user\<close>,
  \<^verbatim>\<open>address\<close>, \<^verbatim>\<open>port\<close> or \<^verbatim>\<open>identity_file\<close>, \<^verbatim>\<open>ansible_connection_options\<close>
  raises \<^verbatim>\<open>KeyError\<close> for a missing field; it does not return the empty dictionary.
\<close>

theorem ansible_connection_options_missing_field:
  assumes "disk e (instance_config (priv_config self)) = Some (PList (pre @ PDict r # post))"
    and "list_all (passed_over n) pre"
    and "map_of r ''instance'' = Some (PStr n)"
    and "map_of r ''user'' = None \<or> map_of r ''address'' = None
         \<or> map_of r ''port'' = None \<or> map_of r ''identity_file'' = None"
  shows "\<exists>k. k \<in> set [''user'', ''address'', ''port'', ''identity_file'']
           \<and> map_of r k = None
           \<and> ansible_connection_options self e n = Inl (KeyError k)"
proof -
  have "matches n (PDict r)"
    using assms(3) by (simp add: matches_def)
  with assms(1,2) have "get_instance_config self e n = Inr (PDict r)"
    by (rule get_instance_config_found)
  with assms(4) show ?thesis
    by (auto simp: ansible_connection_options_def connection_dict_def split: option.splits)
qed

theorem ansible_connection_options_missing_field_witness:
  "map_of portless_record ''port'' = None
   \<and> ansible_connection_options (init sample_config) (env_with [PDict portless_record]) ''i1''
       = Inl (KeyError ''port'')"
proof -
  have on_disk: "disk (env_with [PDict portless_record])
                (instance_config (priv_config (init sample_config)))
              = Some (PList ([] @ PDict portless_record # []))"
    by (simp add: sample_file)
  have before: "list_all (passed_over ''i1'') []"
    by simp
  have found: "map_of portless_record ''instance'' = Some (PStr ''i1'')"
    by (simp add: portless_record_def)
  have missing: "map_of portless_record ''user'' = None
      \<or> map_of portless_record ''address'' = None
      \<or> map_of portless_record ''port'' = None
      \<or> map_of portless_record ''identity_file'' = None"
    by (simp add: portless_record_def)
  show ?thesis
    using ansible_connection_options_missing_field [OF on_disk before found missing]
    by (auto simp: portless_record_def)
qed

subsection \<open>Login options\<close>

text \<open>
  Claim C3. When the instance-config file is not on disk, \<^verbatim>\<open>login_options\<close> raises
  \<^verbatim>\<open>OSError\<close>; when the file holds records and none is for the instance name, it
  raises \<^verbatim>\<open>StopIteration\<close>. In neither case does it return a dictionary.
\<close>

theorem login_options_raises:
  "(disk e (instance_config (priv_config self)) = None \<longrightarrow>
      login_options self e n = Inl OSError)
   \<and> (disk e (instance_config (priv_config self)) = Some (PList items)
        \<and> list_all (passed_over n) items \<longrightarrow>
      login_options self e n = Inl StopIteration)"
  by (simp add: login_options_def get_instance_config_absent get_instance_config_list
      next_match_none)

theorem login_options_raises_witness:
  "disk env_without_file (instance_config (priv_config (init sample_config))) = None
   \<and> login_options (init sample_config) env_without_file ''i1'' = Inl OSError
   \<and> list_all (passed_over ''i2'') [PDict sample_record]
   \<and> login_options (init sample_config) (env_with [PDict sample_record]) ''i2''
       = Inl StopIteration"
proof -
  note absent = sample_no_file
  have other: "list_all (passed_over ''i2'') [PDict sample_record]"
    by (simp add: passed_over_def sample_record_def)
  show ?thesis
    using absent other
      login_options_raises [of env_without_file "init sample_config" "''i1''"]
      login_options_raises [of "env_with [PDict sample_record]" "init sample_config"
        "''i2''" "[PDict sample_record]"]
    by (simp add: sample_file)
qed

text \<open>Storing into a dictionary, seen as a map.\<close>

lemma map_of_dict_set: "map_of (dict_set d k v) = (map_of d)(k \<mapsto> v)"
  by (induction d) (auto simp: fun_eq_iff)

text \<open>
  When no value of \<open>a\<close> is a dictionary the recursive branch of the merge is never
  taken: the items of \<open>b\<close> are stored one after the other, a later one winning.
\<close>

lemma merge_into_flat:
  assumes "\<And>k ak. map_of a k \<noteq> Some (PDict ak)"
  shows "map_of (merge_into a res b) = map_of res ++ map_of (rev b)"
proof (induction b arbitrary: res)
  case Nil
  show ?case by simp
next
  case (Cons kv b)
  obtain k v where kv: "kv = (k, v)" by (cases kv)
  have step: "merge_into a res (kv # b) = merge_into a (dict_set res k v) b"
    using assms [of k] by (simp add: kv split: option.splits pyval.splits)
  show ?case
    unfolding step Cons.IH
    by (simp add: kv map_of_dict_set fun_eq_iff map_add_def split: option.splits)
qed

lemma map_of_rev_distinct: "distinct (map fst b) \<Longrightarrow> map_of (rev b) = map_of b"
proof (induction b)
  case Nil
  show ?case by simp
next
  case (Cons kv b)
  then have "fst kv \<notin> dom (map_of b)"
    by (simp add: dom_map_of_conv_image_fst)
  with Cons show ?case
    by (cases kv) (auto simp: fun_eq_iff map_add_def domIff split: option.splits)
qed

lemma merge_dicts_instance:
  assumes "distinct (map fst r)" and "map_of r ''instance'' = Some (PStr n)"
  shows "map_of (merge_dicts [(''instance'', PStr n)] r) = map_of r"
proof -
  have "map_of (merge_dicts [(''instance'', PStr n)] r)
        = map_of [(''instance'', PStr n)] ++ map_of (rev r)"
    unfolding merge_dicts_def by (rule merge_into_flat) (simp split: if_splits)
  also have "\<dots> = map_of [(''instance'', PStr n)] ++ map_of r"
    using assms(1) by (simp add: map_of_rev_distinct)
  also have "\<dots> = map_of r"
    using assms(2) by (auto simp: fun_eq_iff map_add_def split: option.splits)
  finally show ?thesis .
qed

text \<open>
  Claim C4. When the instance-config file holds a record for the instance name,
  \<^verbatim>\<open>login_options\<close> returns the merge of \<^verbatim>\<open>{"instance": instance_name}\<close> with that
  record: the result maps \<^verbatim>\<open>instance\<close> to the name, holds every field of the record
  with its value, and has no other key. The keys of the record are distinct, as the
  keys of a dictionary are.
\<close>

theorem login_options_merges:
  assumes "disk e (instance_config (priv_config self)) = Some (PList (pre @ PDict r # post))"
    and "list_all (passed_over n) pre"
    and "map_of r ''instance'' = Some (PStr n)"
    and "distinct (map fst r)"
  shows "\<exists>res. login_options self e n = Inr res
           \<and> res = merge_dicts [(''instance'', PStr n)] r
           \<and> map_of res ''instance'' = Some (PStr n)
           \<and> (\<forall>k v. map_of r k = Some v \<longrightarrow> map_of res k = Some v)
           \<and> dom (map_of res) = dom (map_of r)"
proof -
  have "matches n (PDict r)"
    using assms(3) by (simp add: matches_def)
  with assms(1,2) have "get_instance_config self e n = Inr (PDict r)"
    by (rule get_instance_config_found)
  then have "login_options self e n = Inr (merge_dicts [(''instance'', PStr n)] r)"
    by (simp add: login_options_def)
  then show ?thesis
    using merge_dicts_instance [OF assms(4,3)] assms(3) by simp
qed

theorem login_options_merges_witness:
  "login_options (init sample_config) (env_with [PDict sample_record]) ''i1'' =
     Inr [(''instance'', PStr ''i1''), (''user'', PStr ''u''), (''address'', PStr ''1.2.3.4''),
          (''port'', PInt 22), (''identity_file'', PStr ''/key'')]"
proof -
  have on_disk: "disk (env_with [PDict sample_record])
                (instance_config (priv_config (init sample_config)))
              = Some (PList ([] @ PDict sample_record # []))"
    by (simp add: sample_file)
  have before: "list_all (passed_over ''i1'') []"
    by simp
  have found: "map_of sample_record ''instance'' = Some (PStr ''i1'')"
    by (simp add: sample_record_def)
  have keys: "distinct (map fst sample_record)"
    by (simp add: sample_record_def)
  show ?thesis
    using login_options_merges [OF on_disk before found keys]
    by (simp add: merge_dicts_def sample_record_def)
qed

subsection \<open>First match\<close>

text \<open>
  Claim C5. The lookup returns the first record whose \<^verbatim>\<open>instance\<close> field is the name,
  whatever follows it in the file, further records of the same name included:
  \<^verbatim>\<open>login_options\<close> and \<^verbatim>\<open>ansible_connection_options\<close> return what they return for
  a file that holds this record alone.
\<close>

theorem lookup_takes_first_match:
  assumes "disk e (instance_config (priv_config self)) = Some (PList (pre @ r # post))"
    and "list_all (passed_over n) pre"
    and "matches n r"
    and "e' = e\<lparr>disk := (disk e)(instance_config (priv_config self) \<mapsto> PList [r])\<rparr>"
  shows "get_instance_config self e n = Inr r
         \<and> login_options self e n = login_options self e' n
         \<and> ansible_connection_options self e n = ansible_connection_options self e' n"
proof -
  have here: "get_instance_config self e n = Inr r"
    using assms(1-3) by (rule get_instance_config_found)
  have "disk e' (instance_config (priv_config self)) = Some (PList ([] @ r # []))"
    using assms(4) by simp
  moreover have "list_all (passed_over n) []"
    by simp
  ultimately have alone: "get_instance_config self e' n = Inr r"
    using assms(3) by (rule get_instance_config_found)
  show ?thesis
    using here alone by (simp add: login_options_def ansible_connection_options_def)
qed

text \<open>Two records of \<^verbatim>\<open>i1\<close>: the user and the address are those of the first.\<close>

theorem lookup_takes_first_match_witness:
  "matches ''i1'' (PDict sample_record) \<and> matches ''i1'' (PDict second_record)
   \<and> get_instance_config (init sample_config)
        (env_with [PDict sample_record, PDict second_record]) ''i1'' = Inr (PDict sample_record)
   \<and> ansible_connection_options (init sample_config)
        (env_with [PDict sample_record, PDict second_record]) ''i1'' =
       Inr [(''ansible_user'', PStr ''u''), (''ansible_host'', PStr ''1.2.3.4''),
            (''ansible_port'', PInt 22), (''ansible_private_key_file'', PStr ''/key''),
            (''connection'', PStr ''ssh''),
            (''ansible_ssh_common_args'', PStr ''-o Foo=bar -o LogLevel=ERROR'')]"
proof -
  have on_disk: "disk (env_with [PDict sample_record, PDict second_record])
                (instance_config (priv_config (init sample_config)))
              = Some (PList ([] @ PDict sample_record # [PDict second_record]))"
    by (simp add: sample_file)
  have before: "list_all (passed_over ''i1'') []"
    by simp
  have first: "matches ''i1'' (PDict sample_record)"
    by (simp add: matches_def sample_record_def)
  have second: "matches ''i1'' (PDict second_record)"
    by (simp add: matches_def second_record_def)
  have alone: "ansible_connection_options (init sample_config)
       ((env_with [PDict sample_record, PDict second_record])
          \<lparr>disk := (disk (env_with [PDict sample_record, PDict second_record]))
             (instance_config (priv_config (init sample_config))
                \<mapsto> PList [PDict sample_record])\<rparr>) ''i1'' =
       Inr [(''ansible_user'', PStr ''u''), (''ansible_host'', PStr ''1.2.3.4''),
            (''ansible_port'', PInt 22), (''ansible_private_key_file'', PStr ''/key''),
            (''connection'', PStr ''ssh''),
            (''ansible_ssh_common_args'', PStr ''-o Foo=bar -o LogLevel=ERROR'')]"
    by (simp add: ansible_connection_options_def get_instance_config_def safe_load_file_def
        connection_dict_def sample_record_def sample_config_def init_def env_with_def)
  show ?thesis
    using first second alone lookup_takes_first_match [OF on_disk before first refl]
    by simp
qed

subsection \<open>Safe files\<close>

text \<open>
  Claim C6. For every configuration the list of \<^verbatim>\<open>default_safe_files\<close> includes the
  Vagrantfile path and the instance-config path. The Vagrantfile path is
  \<^verbatim>\<open>Vagrantfile\<close> joined to the ephemeral directory, which for a directory path that
  does not end in a separator is the directory followed by \<^verbatim>\<open>/Vagrantfile\<close>.
\<close>

theorem default_safe_files_includes:
  "vagrantfile self \<in> set (default_safe_files self)
   \<and> instance_config (priv_config self) \<in> set (default_safe_files self)
   \<and> vagrantfile self = os_path_join (ephemeral_directory (priv_config self)) ''Vagrantfile''
   \<and> (ephemeral_directory (priv_config self) \<noteq> []
        \<and> last (ephemeral_directory (priv_config self)) \<noteq> CHR ''/''
      \<longrightarrow> vagrantfile self = ephemeral_directory (priv_config self) @ ''/Vagrantfile'')"
  by (simp add: default_safe_files_def vagrantfile_def os_path_join_def)

theorem default_safe_files_includes_witness:
  "ephemeral_directory (priv_config (init sample_config)) \<noteq> []
   \<and> last (ephemeral_directory (priv_config (init sample_config))) \<noteq> CHR ''/''
   \<and> vagrantfile (init sample_config) = ''/tmp/eph/Vagrantfile''
   \<and> ''/tmp/eph/Vagrantfile'' \<in> set (default_safe_files (init sample_config))
   \<and> ''/tmp/eph/instance_config.yml'' \<in> set (default_safe_files (init sample_config))"
proof -
  have dir: "ephemeral_directory (priv_config (init sample_config)) = ''/tmp/eph''"
    and path: "instance_config (priv_config (init sample_config))
                 = ''/tmp/eph/instance_config.yml''"
    by (simp_all add: sample_config_def init_def)
  have plain: "ephemeral_directory (priv_config (init sample_config)) \<noteq> []
        \<and> last (ephemeral_directory (priv_config (init sample_config))) \<noteq> CHR ''/''"
    by (simp add: dir)
  from default_safe_files_includes [of "init sample_config"]
  have listed: "vagrantfile (init sample_config) \<in> set (default_safe_files (init sample_config))"
    and config_listed: "instance_config (priv_config (init sample_config))
                     \<in> set (default_safe_files (init sample_config))"
    and joined: "ephemeral_directory (priv_config (init sample_config)) \<noteq> []
        \<and> last (ephemeral_directory (priv_config (init sample_config))) \<noteq> CHR ''/''
      \<longrightarrow> vagrantfile (init sample_config)
            = ephemeral_directory (priv_config (init sample_config)) @ ''/Vagrantfile''"
    by blast+
  from joined plain have "vagrantfile (init sample_config) = ''/tmp/eph/Vagrantfile''"
    by (simp add: dir)
  with listed config_listed plain show ?thesis
    by (simp add: path)
qed

subsection \<open>The login command\<close>

lemma str_int_22: "str_int 22 = ''22''"
  by code_simp

text \<open>
  Claim C7. With the single SSH option \<^verbatim>\<open>-o Foo=bar\<close> configured, formatting
  \<^verbatim>\<open>login_cmd_template\<close> with address \<^verbatim>\<open>1.2.3.4\<close>, user \<^verbatim>\<open>vagrant\<close>, port 22 and
  identity file \<^verbatim>\<open>/k\<close> gives the command
  \<^verbatim>\<open>ssh 1.2.3.4 -l vagrant -p 22 -i /k -o Foo=bar\<close>: the address, the user after
  \<^verbatim>\<open>-l\<close>, the port after \<^verbatim>\<open>-p\<close>, the identity file after \<^verbatim>\<open>-i\<close>, then the option.
\<close>

theorem login_cmd_template_formats:
  assumes "ssh_connection_options (priv_config self) = [''-o Foo=bar'']"
    and "map_of kwargs ''address'' = Some (PStr ''1.2.3.4'')"
    and "map_of kwargs ''user'' = Some (PStr ''vagrant'')"
    and "map_of kwargs ''port'' = Some (PInt 22)"
    and "map_of kwargs ''identity_file'' = Some (PStr ''/k'')"
  shows "py_format (login_cmd_template self) kwargs =
           Inr ''ssh 1.2.3.4 -l vagrant -p 22 -i /k -o Foo=bar''"
  using assms
  by (simp add: login_cmd_template_def py_format_def format_field_def prepend_def str_int_22)

theorem login_cmd_template_formats_witness:
  "py_format
     (login_cmd_template
        (init (sample_config\<lparr>ssh_connection_options := [''-o Foo=bar'']\<rparr>)))
     [(''address'', PStr ''1.2.3.4''), (''user'', PStr ''vagrant''), (''port'', PInt 22),
      (''identity_file'', PStr ''/k'')]
   = Inr ''ssh 1.2.3.4 -l vagrant -p 22 -i /k -o Foo=bar''"
proof -
  have option:
    "ssh_connection_options
       (priv_config (init (sample_config\<lparr>ssh_connection_options := [''-o Foo=bar'']\<rparr>)))
     = [''-o Foo=bar'']"
    by (simp add: init_def)
  show ?thesis
    by (rule login_cmd_template_formats [OF option]) simp_all
qed

subsection \<open>Sanity checks\<close>

text \<open>
  Claim C8. \<^verbatim>\<open>sanity_checks\<close> ends the process, with the message that the vagrant
  executable was not found, when \<^verbatim>\<open>vagrant\<close> is not on the search path; when it is
  there the call returns normally, whatever the rest of the environment.
\<close>

theorem sanity_checks_gate:
  "(which e ''vagrant'' = None \<longrightarrow>
      sanity_checks self e = Inl (SystemExit 1 ''vagrant executable was not found!''))
   \<and> (which e ''vagrant'' = Some p \<and> p \<noteq> [] \<longrightarrow> sanity_checks self e = Inr ())"
  by (simp add: sanity_checks_def sysexit_with_message_def)

theorem sanity_checks_gate_witness:
  "which env_without_file ''vagrant'' = None
   \<and> sanity_checks (init sample_config) env_without_file
       = Inl (SystemExit 1 ''vagrant executable was not found!'')
   \<and> which env_with_vagrant ''vagrant'' = Some ''/usr/bin/vagrant''
   \<and> sanity_checks (init sample_config) env_with_vagrant = Inr ()"
proof -
  have missing: "which env_without_file ''vagrant'' = None"
    by (simp add: env_without_file_def)
  have present: "which env_with_vagrant ''vagrant'' = Some ''/usr/bin/vagrant''"
    by (simp add: env_with_vagrant_def)
  show ?thesis
    using missing present
      sanity_checks_gate [of env_without_file "init sample_config"]
      sanity_checks_gate [of env_with_vagrant "init sample_config" "''/usr/bin/vagrant''"]
    by simp
qed

subsection \<open>State of the driver object\<close>

lemma call_keeps_config: "priv_config (snd (call c s e)) = priv_config s"
  by (cases c) (simp_all add: set_name_def)

lemma call_keeps_object: "(\<forall>v. c \<noteq> SetName v) \<Longrightarrow> snd (call c s e) = s"
  by (cases c) simp_all

lemma calls_keeps_config: "priv_config (snd (calls cs s e)) = priv_config s"
proof (induction cs arbitrary: s)
  case Nil
  show ?case by simp
next
  case (Cons c cs)
  show ?case
    using Cons.IH [of "snd (call c s e)"] call_keeps_config [of c s e]
    by (simp add: split_beta)
qed

lemma get_instance_config_reads:
  assumes "priv_config s1 = priv_config s2"
    and "disk e1 (instance_config (priv_config s1)) = disk e2 (instance_config (priv_config s2))"
  shows "get_instance_config s1 e1 n = get_instance_config s2 e2 n"
  using assms by (simp add: get_instance_config_def safe_load_file_def)

lemma connection_dict_reads:
  "priv_config s1 = priv_config s2 \<Longrightarrow> connection_dict s1 = connection_dict s2"
  by (simp add: fun_eq_iff connection_dict_def cong: sum.case_cong)

text \<open>
  What a call other than the getter of \<^verbatim>\<open>name\<close> returns is fixed by the configuration
  and by the content of the instance-config file.
\<close>

lemma call_reads:
  assumes "c \<noteq> Name" and "priv_config s1 = priv_config s2"
    and "disk e1 (instance_config (priv_config s1)) = disk e2 (instance_config (priv_config s2))"
  shows "fst (call c s1 e1) = fst (call c s2 e2)"
proof (cases c)
  case (LoginOptions n)
  then show ?thesis
    using get_instance_config_reads [OF assms(2,3), of n] by (simp add: login_options_def)
next
  case (AnsibleConnectionOptions n)
  then show ?thesis
    using get_instance_config_reads [OF assms(2,3), of n] connection_dict_reads [OF assms(2)]
    by (simp add: ansible_connection_options_def cong: sum.case_cong)
next
  case (GetInstanceConfig n)
  then show ?thesis
    using get_instance_config_reads [OF assms(2,3), of n] by simp
qed (use assms(1,2) in \<open>simp_all add: testinfra_options_def login_cmd_template_def
      default_safe_files_def default_ssh_connection_options_def vagrantfile_def\<close>)

text \<open>
  Claim C9, as stated, fails for the getter of \<^verbatim>\<open>name\<close>: after the setter has run, the
  same configuration and the same disk give another result than on the new object.
\<close>

theorem name_depends_on_setter:
  "priv_config (snd (call (SetName ''other'') (init sample_config) env_without_file))
     = priv_config (init sample_config)
   \<and> fst (call Name (snd (call (SetName ''other'') (init sample_config) env_without_file))
           env_without_file)
     \<noteq> fst (call Name (init sample_config) env_without_file)"
  by (simp add: set_name_def name_def init_def)

text \<open>
  Claim C9, amended. Every operation other than the getter of \<^verbatim>\<open>name\<close> is stateless
  given the configuration and the content of the instance-config file: two calls with
  the same arguments, the same configuration and the same file content return the same
  result, whatever was called before and whatever the disk held then (the file is read
  anew by each call, nothing is cached). No operation but the setter of \<^verbatim>\<open>name\<close>
  changes the object, none changes the configuration, and a call repeated at once
  returns the same result. The getter of \<^verbatim>\<open>name\<close> returns the value last assigned by
  the setter, \<^verbatim>\<open>vagrant\<close> on a new object.
\<close>

theorem operations_stateless:
  "(c \<noteq> Name \<and> priv_config s1 = priv_config s2
      \<and> disk e1 (instance_config (priv_config s1)) = disk e2 (instance_config (priv_config s2))
      \<longrightarrow> fst (call c s1 e1) = fst (call c s2 e2))
   \<and> (c \<noteq> Name \<longrightarrow> fst (call c (snd (calls before s1 e0)) e1) = fst (call c s1 e1))
   \<and> ((\<forall>v. c \<noteq> SetName v) \<longrightarrow> snd (call c s1 e1) = s1)
   \<and> priv_config (snd (call c s1 e1)) = priv_config s1
   \<and> fst (call c (snd (call c s1 e1)) e1) = fst (call c s1 e1)
   \<and> fst (call Name (init cfg) e1) = Inr (PStr ''vagrant'')
   \<and> fst (call Name (snd (call (SetName v) s1 e1)) e1) = Inr (PStr v)"
proof -
  have twice: "fst (call c (snd (call c s1 e1)) e1) = fst (call c s1 e1)"
  proof (cases "c = Name")
    case True
    then show ?thesis by simp
  next
    case False
    then show ?thesis
      by (intro call_reads) (simp_all add: call_keeps_config)
  qed
  have later: "c \<noteq> Name \<Longrightarrow> fst (call c (snd (calls before s1 e0)) e1) = fst (call c s1 e1)"
    by (intro call_reads) (simp_all add: calls_keeps_config)
  have reads: "c \<noteq> Name \<and> priv_config s1 = priv_config s2
      \<and> disk e1 (instance_config (priv_config s1)) = disk e2 (instance_config (priv_config s2))
      \<longrightarrow> fst (call c s1 e1) = fst (call c s2 e2)"
    using call_reads [of c s1 s2 e1 e2] by blast
  have getter: "fst (call Name (init cfg) e1) = Inr (PStr ''vagrant'')"
    "fst (call Name (snd (call (SetName v) s1 e1)) e1) = Inr (PStr v)"
    by (simp_all add: name_def set_name_def init_def)
  show ?thesis
    using twice later reads getter call_keeps_object [of c s1 e1] call_keeps_config [of c s1 e1]
    by blast
qed

text \<open>
  An object renamed by the setter, on a host where \<^verbatim>\<open>vagrant\<close> is installed, after a
  run of calls on a disk without the file: \<^verbatim>\<open>ansible_connection_options\<close> returns what
  it returns on the new object.
\<close>

theorem operations_stateless_witness:
  "AnsibleConnectionOptions ''i1'' \<noteq> Name
   \<and> priv_config (init sample_config) = priv_config (set_name (init sample_config) ''other'')
   \<and> disk (env_with [PDict sample_record])
        (instance_config (priv_config (init sample_config)))
     = disk ((env_with [PDict sample_record])\<lparr>which := [''vagrant'' \<mapsto> ''/usr/bin/vagrant'']\<rparr>)
        (instance_config (priv_config (set_name (init sample_config) ''other'')))
   \<and> (\<forall>v. AnsibleConnectionOptions ''i1'' \<noteq> SetName v)
   \<and> fst (call (AnsibleConnectionOptions ''i1'') (init sample_config)
            (env_with [PDict sample_record]))
     = fst (call (AnsibleConnectionOptions ''i1'') (set_name (init sample_config) ''other'')
            ((env_with [PDict sample_record])\<lparr>which := [''vagrant'' \<mapsto> ''/usr/bin/vagrant'']\<rparr>))
   \<and> fst (call (AnsibleConnectionOptions ''i1'')
            (snd (calls [AnsibleConnectionOptions ''i1'', SetName ''other'', Name]
                    (init sample_config) env_without_file))
            (env_with [PDict sample_record]))
     = fst (call (AnsibleConnectionOptions ''i1'') (init sample_config)
            (env_with [PDict sample_record]))
   \<and> snd (call (AnsibleConnectionOptions ''i1'') (init sample_config)
            (env_with [PDict sample_record]))
     = init sample_config"
proof -
  have other: "AnsibleConnectionOptions ''i1'' \<noteq> Name"
    and unset: "\<forall>v. AnsibleConnectionOptions ''i1'' \<noteq> SetName v"
    by simp_all
  have same_config:
    "priv_config (init sample_config) = priv_config (set_name (init sample_config) ''other'')"
    by (simp add: set_name_def)
  have same_file:
    "disk (env_with [PDict sample_record])
        (instance_config (priv_config (init sample_config)))
     = disk ((env_with [PDict sample_record])\<lparr>which := [''vagrant'' \<mapsto> ''/usr/bin/vagrant'']\<rparr>)
        (instance_config (priv_config (set_name (init sample_config) ''other'')))"
    by (simp add: set_name_def)
  show ?thesis
    using other unset same_config same_file
      operations_stateless [of "AnsibleConnectionOptions ''i1''" "init sample_config"
        "set_name (init sample_config) ''other''" "env_with [PDict sample_record]"
        "(env_with [PDict sample_record])\<lparr>which := [''vagrant'' \<mapsto> ''/usr/bin/vagrant'']\<rparr>"
        "[AnsibleConnectionOptions ''i1'', SetName ''other'', Name]" env_without_file]
    by blast
qed

end
